theory Spec2Isabelle
  imports Complex_Main "HOL-Library.Monad_Syntax"
begin

section \<open>Numbers\<close>

text \<open>
  The TypeScript sources compute with \<open>number\<close>, the binary64 format of IEEE 754. A
  finite number is modelled by the real it denotes (the two zeros are one real); the
  recursion depth only takes the values \<open>0, 1, 2, ...\<close> and is a \<^typ>\<open>nat\<close>.
  The arithmetic is read in two ways.
  \<^item> Exact: the operations of the reals, without rounding, overflow or underflow. This is
    the arithmetic of the specification's geometry. The definitions of the curve
    renderer without a suffix use it.
  \<^item> Binary64: an operation delivers the exact result rounded to the nearest binary64
    number, ties to even, as IEEE 754 and ECMAScript prescribe for \<open>+\<close>, \<open>-\<close>, \<open>*\<close>
    and \<open>/\<close>. The definitions with the suffix \<open>64\<close> and the transformer model use it.
\<close>

text \<open>\<open>NonFinite\<close> stands for the three values \<open>Infinity\<close>, \<open>-Infinity\<close> and \<open>NaN\<close>.\<close>

datatype jsnum = Finite real | NonFinite

fun isFinite :: "jsnum \<Rightarrow> bool" where
  "isFinite (Finite a) = True"
| "isFinite NonFinite = False"

text \<open>The integer nearest to \<open>q\<close>; of two nearest integers, the even one.\<close>

definition roundTiesToEven :: "real \<Rightarrow> int" where
  "roundTiesToEven q =
     (let f = \<lfloor>q\<rfloor>; r = q - of_int f
      in if r < 1 / 2 then f else if 1 / 2 < r then f + 1 else if even f then f else f + 1)"

text \<open>
  The binary64 numbers around \<open>x \<noteq> 0\<close> are the integer multiples of
  \<open>2 ^ ulpExponent x\<close>: 52 binary places below the leading bit of \<open>x\<close>, and never
  below \<open>2 ^ -1074\<close>, the spacing of the subnormal numbers.
\<close>

definition ulpExponent :: "real \<Rightarrow> int" where
  "ulpExponent x = max (\<lfloor>log 2 \<bar>x\<bar>\<rfloor> - 52) (- 1074)"

text \<open>
  Rounding to nearest, ties to even. A result of magnitude \<open>2 ^ 1024\<close> or more is
  beyond the largest finite number: the operation overflows to an infinity.
\<close>

definition rnd :: "real \<Rightarrow> jsnum" where
  "rnd x =
     (if x = 0 then Finite 0
      else
        let e = ulpExponent x;
            m = roundTiesToEven (x / 2 powr of_int e);
            y = of_int m * 2 powr of_int e
        in if \<bar>y\<bar> < 2 ^ 1024 then Finite y else NonFinite)"

text \<open>The reals that are finite binary64 numbers: rounding leaves them as they are.\<close>

definition isDouble :: "real \<Rightarrow> bool" where
  "isDouble x \<longleftrightarrow> rnd x = Finite x"

section \<open>The adaptive curve renderer (\<open>myQuadraticVertex.ts\<close>)\<close>

subsection \<open>Constants\<close>

definition flatnessTolerance :: real where
  "flatnessTolerance = 0.5"

definition maxRecursionDepth :: nat where
  "maxRecursionDepth = 8"

subsection \<open>The distance helper\<close>

text \<open>
  \<open>pInstance.dist(x1, y1, x2, y2)\<close> of the p5 library: the Euclidean distance
  between two points of the plane. This subsection and the next two read the code in
  exact arithmetic; the binary64 reading of the helper and of the subdivision follows
  them.
\<close>

definition p5_dist :: "real \<Rightarrow> real \<Rightarrow> real \<Rightarrow> real \<Rightarrow> real" where
  "p5_dist x1 y1 x2 y2 = sqrt ((x2 - x1) * (x2 - x1) + (y2 - y1) * (y2 - y1))"

definition getDistanceToLine ::
  "real \<Rightarrow> real \<Rightarrow> real \<Rightarrow> real \<Rightarrow> real \<Rightarrow> real \<Rightarrow> real" where
  "getDistanceToLine px py x1 y1 x2 y2 =
     (let dx = x2 - x1;
          dy = y2 - y1;
          lenSq = dx * dx + dy * dy
      in if lenSq = 0 then p5_dist px py x1 y1
         else
           let t = ((px - x1) * dx + (py - y1) * dy) / lenSq
           in if t < 0 then p5_dist px py x1 y1
              else if t > 1 then p5_dist px py x2 y2
              else
                let closestX = x1 + t * dx;
                    closestY = y1 + t * dy
                in p5_dist px py closestX closestY)"

subsection \<open>Recursive subdivision\<close>

text \<open>
  \<open>_recursiveQuadraticVertex\<close> returns nothing; its effect is the sequence of
  \<open>pInstance.vertex\<close> calls it makes. The model returns that sequence, in call order.
\<close>

function recursiveQuadraticVertex ::
  "real \<Rightarrow> real \<Rightarrow> real \<Rightarrow> real \<Rightarrow> real \<Rightarrow> real \<Rightarrow> nat \<Rightarrow> (real \<times> real) list" where
  "recursiveQuadraticVertex x0 y0 x1 y1 x2 y2 depth =
     (if depth \<ge> maxRecursionDepth \<or> getDistanceToLine x1 y1 x0 y0 x2 y2 < flatnessTolerance
      then [(x2, y2)]
      else
        let midX01 = (x0 + x1) / 2;
            midY01 = (y0 + y1) / 2;
            midX12 = (x1 + x2) / 2;
            midY12 = (y1 + y2) / 2;
            midX012 = (midX01 + midX12) / 2;
            midY012 = (midY01 + midY12) / 2
        in recursiveQuadraticVertex x0 y0 midX01 midY01 midX012 midY012 (depth + 1)
           @ recursiveQuadraticVertex midX012 midY012 midX12 midY12 x2 y2 (depth + 1))"
  by pat_completeness auto
termination
  by (relation "measure (\<lambda>(x0, y0, x1, y1, x2, y2, depth). maxRecursionDepth - depth)") auto

declare recursiveQuadraticVertex.simps [simp del]

subsection \<open>The drawing state and the two exported operations\<close>

text \<open>
  The module keeps the last point in two variables, declared without a value
  (\<open>let lastX: number; let lastY: number;\<close>): \<open>None\<close> is the unset variable.
  The vertices of the shape under construction belong to the p5 instance;
  \<open>pInstance.vertex(x, y)\<close> appends one.
\<close>

record sketch =
  lastX :: "real option"
  lastY :: "real option"
  vertices :: "(real \<times> real) list"

definition vertex :: "sketch \<Rightarrow> real \<Rightarrow> real \<Rightarrow> sketch" where
  "vertex s x y = s\<lparr>vertices := vertices s @ [(x, y)]\<rparr>"

definition myVertex :: "sketch \<Rightarrow> real \<Rightarrow> real \<Rightarrow> sketch" where
  "myVertex s x y = (vertex s x y)\<lparr>lastX := Some x, lastY := Some y\<rparr>"

text \<open>
  \<open>myQuadraticVertex\<close> reads the last point. With an unset variable the source
  computes on \<open>undefined\<close>, whose arithmetic is \<open>NaN\<close>; that value is outside the
  real numbers, and the model answers \<open>None\<close> there.
\<close>

definition myQuadraticVertex ::
  "sketch \<Rightarrow> real \<Rightarrow> real \<Rightarrow> real \<Rightarrow> real \<Rightarrow> sketch option" where
  "myQuadraticVertex s cx cy x2 y2 =
     (case (lastX s, lastY s) of
        (Some x0, Some y0) \<Rightarrow>
          Some (s\<lparr>vertices := vertices s @ recursiveQuadraticVertex x0 y0 cx cy x2 y2 0,
                  lastX := Some x2, lastY := Some y2\<rparr>)
      | _ \<Rightarrow> None)"

subsection \<open>The binary64 reading of the distance helper and of the subdivision\<close>











section \<open>The transformer model (\<open>calculateTransformerResults.ts\<close>)\<close>

text \<open>
  The inputs are finite numbers, and the arithmetic is binary64. A division by zero does
  not raise in JavaScript: it yields \<open>Infinity\<close>, \<open>-Infinity\<close> or \<open>NaN\<close>. Every
  divisor of the function is one of its inputs, so the divisor of \<open>jsdiv\<close> is a real. A
  product with a non-finite factor, and a quotient of a non-finite number by a finite
  one, is again non-finite.
\<close>

fun jsmul :: "jsnum \<Rightarrow> jsnum \<Rightarrow> jsnum" where
  "jsmul (Finite a) (Finite b) = rnd (a * b)"
| "jsmul _ _ = NonFinite"

fun jsdiv :: "jsnum \<Rightarrow> real \<Rightarrow> jsnum" where
  "jsdiv (Finite a) b = (if b = 0 then NonFinite else rnd (a / b))"
| "jsdiv NonFinite b = NonFinite"

record TransformerResults =
  transformerType :: string
  primaryCurrent :: jsnum
  primaryPower :: jsnum
  secondaryVoltage :: jsnum
  secondaryCurrent :: jsnum
  secondaryPower :: jsnum

definition calculateTransformerResults ::
  "real \<Rightarrow> real \<Rightarrow> real \<Rightarrow> real \<Rightarrow> TransformerResults" where
  "calculateTransformerResults primaryVoltage primaryTurns secondaryTurns loadResistance =
     (let Np = primaryTurns;
          Ns = secondaryTurns;
          Vp = primaryVoltage;
          secondaryVoltage = jsmul (Finite Vp) (jsdiv (Finite Ns) Np);
          secondaryCurrent = jsdiv secondaryVoltage loadResistance;
          secondaryPower = jsmul secondaryVoltage secondaryCurrent;
          primaryPower = secondaryPower;
          primaryCurrent = (if Vp > 0 then jsdiv primaryPower Vp else Finite 0);
          transformerType = ''Isolation'';
          transformerType = (if Ns > Np then ''Step-Up'' else transformerType);
          transformerType = (if Ns < Np then ''Step-Down'' else transformerType)
      in \<lparr>transformerType = transformerType,
          primaryCurrent = primaryCurrent,
          primaryPower = primaryPower,
          secondaryVoltage = secondaryVoltage,
          secondaryCurrent = secondaryCurrent,
          secondaryPower = secondaryPower\<rparr>)"

section \<open>The true curve\<close>

text \<open>
  The quadratic Bezier curve of the specification,
  \<open>B(t) = (1-t)\<^sup>2 * P0 + 2t(1-t) * P1 + t\<^sup>2 * P2\<close>, coordinate by coordinate. It is the
  reference the renderer's output is compared with, not a function of the source.
\<close>

definition bezierCoord :: "real \<Rightarrow> real \<Rightarrow> real \<Rightarrow> real \<Rightarrow> real" where
  "bezierCoord c0 c1 c2 t = (1 - t)\<^sup>2 * c0 + 2 * t * (1 - t) * c1 + t\<^sup>2 * c2"

definition quadraticBezier ::
  "real \<times> real \<Rightarrow> real \<times> real \<Rightarrow> real \<times> real \<Rightarrow> real \<Rightarrow> real \<times> real" where
  "quadraticBezier P0 P1 P2 t =
     (bezierCoord (fst P0) (fst P1) (fst P2) t, bezierCoord (snd P0) (snd P1) (snd P2) t)"

text \<open>
  The polar form of one coordinate of the curve: \<open>blossom c0 c1 c2 t t\<close> is the curve at
  \<open>t\<close>, and the piece of the curve over \<open>[u, v]\<close> has the control values
  \<open>blossom u u\<close>, \<open>blossom u v\<close>, \<open>blossom v v\<close>.
\<close>

definition blossom :: "real \<Rightarrow> real \<Rightarrow> real \<Rightarrow> real \<Rightarrow> real \<Rightarrow> real" where
  "blossom c0 c1 c2 u v = (1 - u) * (1 - v) * c0 + ((1 - u) * v + u * (1 - v)) * c1 + u * v * c2"

section \<open>Rounding\<close>

lemma roundTiesToEven_of_int: "roundTiesToEven (of_int z) = z"
  by (simp add: roundTiesToEven_def)



text \<open>
  A number \<open>m * 2 ^ e\<close> with a significand of at most 53 bits and an exponent in the
  range of the format is a binary64 number.
\<close>

lemma rnd_representable:
  fixes m e :: int
  assumes m: "\<bar>m\<bar> < 2 ^ 53" and lo: "- 1074 \<le> e" and hi: "e \<le> 971"
  shows "rnd (of_int m * 2 powr of_int e) = Finite (of_int m * 2 powr of_int e)"
proof (cases "m = 0")
  case True
  then show ?thesis by (simp add: rnd_def)
next
  case False
  define x :: real where "x = of_int m * 2 powr of_int e"
  define b where "b = ulpExponent x"
  have ax: "\<bar>x\<bar> = of_int \<bar>m\<bar> * 2 powr of_int e"
    by (simp add: x_def abs_mult)
  have xpos: "0 < \<bar>x\<bar>"
    using False by (simp add: x_def)
  have "real_of_int \<bar>m\<bar> < 2 ^ 53"
    using m by (metis of_int_less_iff of_int_numeral of_int_power)
  then have "\<bar>x\<bar> < 2 ^ 53 * 2 powr of_int e"
    unfolding ax by (intro mult_strict_right_mono) simp_all
  also have "\<dots> = 2 powr of_int (53 + e)"
    by (simp add: powr_add)
  finally have small: "\<bar>x\<bar> < 2 powr of_int (53 + e)" .
  then have "log 2 \<bar>x\<bar> < of_int (53 + e)"
    using xpos by (simp add: log_less_iff)
  then have "\<lfloor>log 2 \<bar>x\<bar>\<rfloor> < 53 + e"
    by (simp add: floor_less_iff)
  then have be: "b \<le> e"
    using lo by (simp add: b_def ulpExponent_def)
  define n where "n = nat (e - b)"
  have split: "(2::real) powr of_int e = 2 ^ n * 2 powr of_int b"
  proof -
    have "of_int e = real n + of_int b"
      using be by (simp add: n_def)
    then show ?thesis
      by (simp add: powr_add powr_realpow)
  qed
  have q: "x / 2 powr of_int b = of_int (m * 2 ^ n)"
    by (simp add: x_def split)
  have r: "roundTiesToEven (x / 2 powr of_int b) = m * 2 ^ n"
    unfolding q by (rule roundTiesToEven_of_int)
  have y: "of_int (m * 2 ^ n) * 2 powr of_int b = x"
    by (simp add: x_def split)
  have "(2::real) powr of_int (53 + e) \<le> 2 powr of_int 1024"
    using hi by (intro powr_mono) simp_all
  also have "(2::real) powr of_int 1024 = 2 ^ 1024"
    by (simp add: powr_numeral del: power_numeral)
  finally have fin: "\<bar>x\<bar> < 2 ^ 1024"
    using small by linarith
  have "x \<noteq> 0"
    using xpos by simp
  then have "rnd x = Finite x"
    using r y fin by (simp add: rnd_def Let_def b_def [symmetric])
  then show ?thesis
    by (simp only: x_def)
qed

lemma isDouble_int:
  fixes n :: int
  assumes "\<bar>n\<bar> < 2 ^ 53"
  shows "isDouble (of_int n)"
  using rnd_representable [OF assms, of 0] by (simp add: isDouble_def)







section \<open>Properties of the recursive subdivision\<close>

lemma rqv_stop:
  assumes "maxRecursionDepth \<le> depth \<or> getDistanceToLine x1 y1 x0 y0 x2 y2 < flatnessTolerance"
  shows "recursiveQuadraticVertex x0 y0 x1 y1 x2 y2 depth = [(x2, y2)]"
  using assms by (subst recursiveQuadraticVertex.simps) simp

lemma rqv_split:
  assumes "depth < maxRecursionDepth"
    and "\<not> getDistanceToLine x1 y1 x0 y0 x2 y2 < flatnessTolerance"
  shows "recursiveQuadraticVertex x0 y0 x1 y1 x2 y2 depth =
           recursiveQuadraticVertex x0 y0 ((x0 + x1) / 2) ((y0 + y1) / 2)
             (((x0 + x1) / 2 + (x1 + x2) / 2) / 2) (((y0 + y1) / 2 + (y1 + y2) / 2) / 2)
             (depth + 1)
           @ recursiveQuadraticVertex
               (((x0 + x1) / 2 + (x1 + x2) / 2) / 2) (((y0 + y1) / 2 + (y1 + y2) / 2) / 2)
               ((x1 + x2) / 2) ((y1 + y2) / 2) x2 y2 (depth + 1)"
  using assms by (subst recursiveQuadraticVertex.simps) (simp add: Let_def)

lemma rqv_cases:
  obtains (stop) "recursiveQuadraticVertex x0 y0 x1 y1 x2 y2 depth = [(x2, y2)]"
  | (split) a b c d e f where "depth < maxRecursionDepth"
      "recursiveQuadraticVertex x0 y0 x1 y1 x2 y2 depth =
         recursiveQuadraticVertex x0 y0 a b c d (depth + 1)
         @ recursiveQuadraticVertex c d e f x2 y2 (depth + 1)"
proof (cases "maxRecursionDepth \<le> depth
                \<or> getDistanceToLine x1 y1 x0 y0 x2 y2 < flatnessTolerance")
  case True
  then show ?thesis using rqv_stop stop by blast
next
  case False
  then have "depth < maxRecursionDepth"
    and "\<not> getDistanceToLine x1 y1 x0 y0 x2 y2 < flatnessTolerance"
    by simp_all
  from this(1) rqv_split [OF this] show ?thesis by (rule split)
qed

lemma rqv_nonempty: "recursiveQuadraticVertex x0 y0 x1 y1 x2 y2 depth \<noteq> []"
proof (induction "maxRecursionDepth - depth" arbitrary: x0 y0 x1 y1 depth)
  case 0
  then show ?case by (simp add: rqv_stop)
next
  case (Suc k)
  show ?case
  proof (cases rule: rqv_cases [of x0 y0 x1 y1 x2 y2 depth])
    case stop
    then show ?thesis by simp
  next
    case (split a b c d e f)
    from Suc.hyps(2) have "k = maxRecursionDepth - (depth + 1)" by simp
    then have "recursiveQuadraticVertex c d e f x2 y2 (depth + 1) \<noteq> []"
      by (rule Suc.hyps(1))
    with split(2) show ?thesis by simp
  qed
qed

lemma rqv_last: "last (recursiveQuadraticVertex x0 y0 x1 y1 x2 y2 depth) = (x2, y2)"
proof (induction "maxRecursionDepth - depth" arbitrary: x0 y0 x1 y1 depth)
  case 0
  then show ?case by (simp add: rqv_stop)
next
  case (Suc k)
  show ?case
  proof (cases rule: rqv_cases [of x0 y0 x1 y1 x2 y2 depth])
    case stop
    then show ?thesis by simp
  next
    case (split a b c d e f)
    from Suc.hyps(2) have "k = maxRecursionDepth - (depth + 1)" by simp
    then have "last (recursiveQuadraticVertex c d e f x2 y2 (depth + 1)) = (x2, y2)"
      by (rule Suc.hyps(1))
    with split(2) show ?thesis by (simp add: rqv_nonempty)
  qed
qed

lemma rqv_length_bound:
  "depth \<le> maxRecursionDepth \<Longrightarrow>
     length (recursiveQuadraticVertex x0 y0 x1 y1 x2 y2 depth) \<le> 2 ^ (maxRecursionDepth - depth)"
proof (induction "maxRecursionDepth - depth" arbitrary: x0 y0 x1 y1 x2 y2 depth)
  case 0
  then show ?case by (simp add: rqv_stop)
next
  case (Suc k)
  let ?mx01 = "(x0 + x1) / 2" and ?my01 = "(y0 + y1) / 2"
  let ?mx12 = "(x1 + x2) / 2" and ?my12 = "(y1 + y2) / 2"
  let ?mx = "(?mx01 + ?mx12) / 2" and ?my = "(?my01 + ?my12) / 2"
  show ?case
  proof (cases "getDistanceToLine x1 y1 x0 y0 x2 y2 < flatnessTolerance")
    case True
    then show ?thesis by (simp add: rqv_stop)
  next
    case False
    from Suc.hyps(2) have lt: "depth < maxRecursionDepth"
      and k: "k = maxRecursionDepth - (depth + 1)" and le: "depth + 1 \<le> maxRecursionDepth"
      by simp_all
    have "length (recursiveQuadraticVertex x0 y0 ?mx01 ?my01 ?mx ?my (depth + 1)) \<le> 2 ^ k"
      using Suc.hyps(1) [OF k le] k by simp
    moreover
    have "length (recursiveQuadraticVertex ?mx ?my ?mx12 ?my12 x2 y2 (depth + 1)) \<le> 2 ^ k"
      using Suc.hyps(1) [OF k le] k by simp
    moreover have "maxRecursionDepth - depth = Suc k"
      using Suc.hyps(2) by simp
    ultimately show ?thesis
      by (simp add: rqv_split [OF lt False])
  qed
qed

section \<open>The flattener's contract\<close>

text \<open>
  Claim C1 (endpoint exactness). A call \<open>myQuadraticVertex(p, cx, cy, ex, ey)\<close> made
  when the last point is set returns, appends at least one vertex to the shape, the
  last vertex it appends is exactly \<open>(ex, ey)\<close>, and afterwards \<open>lastX = ex\<close>
  and \<open>lastY = ey\<close>, however many vertices came before.
\<close>

theorem curveTo_endpoint_exact:
  assumes "lastX s = Some x0" and "lastY s = Some y0"
  shows "\<exists>s' pts. myQuadraticVertex s cx cy ex ey = Some s'
           \<and> vertices s' = vertices s @ pts \<and> pts \<noteq> []
           \<and> last pts = (ex, ey) \<and> last (vertices s') = (ex, ey)
           \<and> lastX s' = Some ex \<and> lastY s' = Some ey"
  using assms by (simp add: myQuadraticVertex_def rqv_nonempty rqv_last)

theorem curveTo_endpoint_exact_witness:
  "\<exists>s' pts. myQuadraticVertex (myVertex \<lparr>lastX = None, lastY = None, vertices = []\<rparr> 0 0)
                0 10 10 10 = Some s'
     \<and> vertices s' = [(0, 0)] @ pts \<and> pts \<noteq> []
     \<and> last pts = (10, 10) \<and> last (vertices s') = (10, 10)
     \<and> lastX s' = Some 10 \<and> lastY s' = Some 10"
  using curveTo_endpoint_exact
    [of "myVertex \<lparr>lastX = None, lastY = None, vertices = []\<rparr> 0 0" 0 0 0 10 10 10]
  by (simp add: myVertex_def vertex_def)

text \<open>
  Claim C3 (termination and point count). The subdivision is a total function: its
  recursion is well-founded on \<open>maxRecursionDepth - depth\<close>, with
  \<open>maxRecursionDepth = 8\<close>. A call \<open>myQuadraticVertex\<close> with the last point set
  therefore returns, and the number of vertices it appends is at least 1 and at most
  \<open>2 ^ maxRecursionDepth = 256\<close>.
\<close>

theorem curveTo_terminates_point_count:
  assumes "lastX s = Some x0" and "lastY s = Some y0"
  shows "\<exists>s' pts. myQuadraticVertex s cx cy ex ey = Some s'
           \<and> vertices s' = vertices s @ pts
           \<and> 1 \<le> length pts \<and> length pts \<le> 2 ^ maxRecursionDepth
           \<and> (2::nat) ^ maxRecursionDepth = 256"
proof -
  let ?pts = "recursiveQuadraticVertex x0 y0 cx cy ex ey 0"
  have "?pts \<noteq> []" by (rule rqv_nonempty)
  then have "1 \<le> length ?pts" by (cases ?pts) simp_all
  moreover have "length ?pts \<le> 2 ^ maxRecursionDepth"
    using rqv_length_bound [of 0 x0 y0 cx cy ex ey] by simp
  moreover have "(2::nat) ^ maxRecursionDepth = 256"
    by (simp add: maxRecursionDepth_def)
  ultimately show ?thesis
    using assms by (simp add: myQuadraticVertex_def)
qed

theorem curveTo_terminates_point_count_witness:
  "\<exists>s' pts. myQuadraticVertex \<lparr>lastX = Some 0, lastY = Some 0, vertices = [(0, 0)]\<rparr>
                0 10 10 10 = Some s'
     \<and> vertices s' = [(0, 0)] @ pts
     \<and> 1 \<le> length pts \<and> length pts \<le> 2 ^ maxRecursionDepth
     \<and> (2::nat) ^ maxRecursionDepth = 256"
  using curveTo_terminates_point_count
    [of "\<lparr>lastX = Some 0, lastY = Some 0, vertices = [(0, 0)]\<rparr>" 0 0 0 10 10 10]
  by simp

text \<open>
  Claim C4 (the subdivision step). For a sub-segment \<open>(P0, P1, P2)\<close> at depth \<open>d\<close>
  the routine stops, emitting the single vertex \<open>P2\<close>, exactly when
  \<open>d \<ge> maxRecursionDepth\<close> or the distance from \<open>P1\<close> to the segment \<open>P0-P2\<close> is
  below \<open>flatnessTolerance\<close>. Otherwise its output is the output of the call on
  \<open>(P0, M01, M012)\<close> at depth \<open>d + 1\<close> followed by the output of the call on
  \<open>(M012, M12, P2)\<close> at depth \<open>d + 1\<close>, and nothing else: the step makes no vertex
  call of its own, so the emission of \<open>M012\<close> is the one that ends the first
  recursive call.
\<close>

theorem subdivision_step:
  fixes x0 y0 x1 y1 x2 y2 :: real and d :: nat
  shows
    "(let stop = (d \<ge> maxRecursionDepth
                   \<or> getDistanceToLine x1 y1 x0 y0 x2 y2 < flatnessTolerance);
          M01 = ((x0 + x1) / 2, (y0 + y1) / 2);
          M12 = ((x1 + x2) / 2, (y1 + y2) / 2);
          M012 = ((fst M01 + fst M12) / 2, (snd M01 + snd M12) / 2);
          whole = recursiveQuadraticVertex x0 y0 x1 y1 x2 y2 d;
          first = recursiveQuadraticVertex x0 y0 (fst M01) (snd M01) (fst M012) (snd M012) (d + 1);
          second = recursiveQuadraticVertex (fst M012) (snd M012) (fst M12) (snd M12) x2 y2 (d + 1)
      in (whole = [(x2, y2)] \<longleftrightarrow> stop)
         \<and> (\<not> stop \<longrightarrow> whole = first @ second
                \<and> first \<noteq> [] \<and> last first = M012
                \<and> whole = butlast first @ M012 # second
                \<and> whole ! (length first - 1) = M012
                \<and> length whole = length first + length second))"
proof -
  let ?stop = "d \<ge> maxRecursionDepth \<or> getDistanceToLine x1 y1 x0 y0 x2 y2 < flatnessTolerance"
  let ?mx01 = "(x0 + x1) / 2" and ?my01 = "(y0 + y1) / 2"
  let ?mx12 = "(x1 + x2) / 2" and ?my12 = "(y1 + y2) / 2"
  let ?mx = "(?mx01 + ?mx12) / 2" and ?my = "(?my01 + ?my12) / 2"
  let ?whole = "recursiveQuadraticVertex x0 y0 x1 y1 x2 y2 d"
  let ?first = "recursiveQuadraticVertex x0 y0 ?mx01 ?my01 ?mx ?my (d + 1)"
  let ?second = "recursiveQuadraticVertex ?mx ?my ?mx12 ?my12 x2 y2 (d + 1)"
  have ne1: "?first \<noteq> []" and ne2: "?second \<noteq> []"
    by (rule rqv_nonempty)+
  have l1: "last ?first = (?mx, ?my)"
    by (rule rqv_last)
  have stop: "?whole = [(x2, y2)]" if "?stop"
    using that by (rule rqv_stop)
  have split: "?whole = ?first @ ?second" if "\<not> ?stop"
    using that rqv_split [of d x1 y1 x0 y0 x2 y2] by simp
  have two: "2 \<le> length (?first @ ?second)"
    using ne1 ne2 by (cases ?first; cases ?second) simp_all
  have iff: "?whole = [(x2, y2)] \<longleftrightarrow> ?stop"
  proof
    assume one: "?whole = [(x2, y2)]"
    show "?stop"
    proof (rule ccontr)
      assume "\<not> ?stop"
      then have "length ?whole = length (?first @ ?second)"
        using split by simp
      with two one show False by simp
    qed
  next
    assume "?stop"
    then show "?whole = [(x2, y2)]" by (rule stop)
  qed
  have joint: "?first @ ?second = butlast ?first @ (?mx, ?my) # ?second"
    using ne1 l1 append_butlast_last_id [OF ne1] by (metis append.assoc append_Cons append_Nil)
  have idx: "(?first @ ?second) ! (length ?first - 1) = (?mx, ?my)"
    using ne1 l1 by (simp add: nth_append last_conv_nth)
  show ?thesis
    unfolding Let_def fst_conv snd_conv
    using iff split ne1 l1 joint idx by auto
qed

lemma scenario_not_flat: "\<not> getDistanceToLine 0 10 0 0 10 10 < flatnessTolerance"
proof -
  have "getDistanceToLine 0 10 0 0 10 10 = sqrt 50"
    by (simp add: getDistanceToLine_def p5_dist_def)
  moreover have "1 \<le> sqrt 50"
    by simp
  then have "\<not> sqrt 50 < 1 / 2"
    by linarith
  ultimately show ?thesis
    by (simp only: flatnessTolerance_def)
qed

theorem subdivision_step_witness:
  "\<not> (0 \<ge> maxRecursionDepth \<or> getDistanceToLine 0 10 0 0 10 10 < flatnessTolerance)
   \<and> recursiveQuadraticVertex 0 0 0 10 10 10 0
       = recursiveQuadraticVertex 0 0 0 5 (5 / 2) (15 / 2) 1
         @ recursiveQuadraticVertex (5 / 2) (15 / 2) 5 10 10 10 1
   \<and> last (recursiveQuadraticVertex 0 0 0 5 (5 / 2) (15 / 2) 1) = (5 / 2, 15 / 2)"
  using subdivision_step [of 0 0 10 0 0 10 10] scenario_not_flat
  by (simp add: Let_def maxRecursionDepth_def)

text \<open>
  Claim C6 (degenerate input). When the last point, the control point and the end point
  are one and the same point \<open>P\<close>, the distance check takes the zero-length branch
  (\<open>lenSq = 0\<close>) and yields distance 0, the subdivision stops at depth 0 without
  recursing, and the call appends exactly one vertex, \<open>P\<close>.
\<close>

theorem curveTo_degenerate:
  assumes "lastX s = Some x" and "lastY s = Some y"
  shows "(x - x) * (x - x) + (y - y) * (y - y) = 0
         \<and> getDistanceToLine x y x y x y = p5_dist x y x y
         \<and> getDistanceToLine x y x y x y = 0
         \<and> recursiveQuadraticVertex x y x y x y 0 = [(x, y)]
         \<and> myQuadraticVertex s x y x y
             = Some (s\<lparr>vertices := vertices s @ [(x, y)], lastX := Some x, lastY := Some y\<rparr>)"
proof -
  have d: "getDistanceToLine x y x y x y = p5_dist x y x y"
    by (simp add: getDistanceToLine_def)
  have z: "p5_dist x y x y = 0"
    by (simp add: p5_dist_def)
  have "getDistanceToLine x y x y x y < flatnessTolerance"
    by (simp add: d z flatnessTolerance_def)
  then have r: "recursiveQuadraticVertex x y x y x y 0 = [(x, y)]"
    by (simp add: rqv_stop)
  show ?thesis
    using assms d z r by (simp add: myQuadraticVertex_def)
qed

theorem curveTo_degenerate_witness:
  "myQuadraticVertex \<lparr>lastX = Some 3, lastY = Some 4, vertices = [(3, 4)]\<rparr> 3 4 3 4
     = Some \<lparr>lastX = Some 3, lastY = Some 4, vertices = [(3, 4), (3, 4)]\<rparr>"
  using curveTo_degenerate [of "\<lparr>lastX = Some 3, lastY = Some 4, vertices = [(3, 4)]\<rparr>" 3 4]
  by simp


section \<open>Geometry of the distance helper\<close>












section \<open>Deviation of the curve from the chord\<close>








section \<open>The emitted vertices lie on the curve\<close>

lemma blossom_diag: "blossom c0 c1 c2 t t = bezierCoord c0 c1 c2 t"
  by (simp add: blossom_def bezierCoord_def power2_eq_square algebra_simps)

lemma blossom_ends:
  "blossom c0 c1 c2 0 0 = c0" "blossom c0 c1 c2 0 1 = c1" "blossom c0 c1 c2 1 1 = c2"
  by (simp_all add: blossom_def)

lemma blossom_mid_left:
  "(blossom c0 c1 c2 u u + blossom c0 c1 c2 u v) / 2 = blossom c0 c1 c2 u ((u + v) / 2)"
  by (simp add: blossom_def field_simps)

lemma blossom_mid_right:
  "(blossom c0 c1 c2 u v + blossom c0 c1 c2 v v) / 2 = blossom c0 c1 c2 ((u + v) / 2) v"
  by (simp add: blossom_def field_simps)

lemma blossom_mid_mid:
  "(blossom c0 c1 c2 u ((u + v) / 2) + blossom c0 c1 c2 ((u + v) / 2) v) / 2
     = blossom c0 c1 c2 ((u + v) / 2) ((u + v) / 2)"
  by (simp add: blossom_def field_simps)

text \<open>
  The call on the piece of the curve over \<open>[i / 2^depth, (i + 1) / 2^depth]\<close> emits
  curve points whose parameters are multiples of \<open>1 / 2^maxRecursionDepth\<close> inside
  that interval (left end excluded), in increasing order.
\<close>

lemma rqv_on_curve:
  fixes x0 x1 x2 y0 y1 y2 :: real
  assumes "depth \<le> maxRecursionDepth"
  shows "\<exists>ks. recursiveQuadraticVertex
                (blossom x0 x1 x2 (real i / 2 ^ depth) (real i / 2 ^ depth))
                (blossom y0 y1 y2 (real i / 2 ^ depth) (real i / 2 ^ depth))
                (blossom x0 x1 x2 (real i / 2 ^ depth) (real (i + 1) / 2 ^ depth))
                (blossom y0 y1 y2 (real i / 2 ^ depth) (real (i + 1) / 2 ^ depth))
                (blossom x0 x1 x2 (real (i + 1) / 2 ^ depth) (real (i + 1) / 2 ^ depth))
                (blossom y0 y1 y2 (real (i + 1) / 2 ^ depth) (real (i + 1) / 2 ^ depth))
                depth
              = map (\<lambda>k. (bezierCoord x0 x1 x2 (real k / 2 ^ maxRecursionDepth),
                            bezierCoord y0 y1 y2 (real k / 2 ^ maxRecursionDepth))) ks
            \<and> sorted_wrt (<) ks
            \<and> (\<forall>k \<in> set ks. i * 2 ^ (maxRecursionDepth - depth) < k
                             \<and> k \<le> (i + 1) * 2 ^ (maxRecursionDepth - depth))"
  using assms
proof (induction "maxRecursionDepth - depth" arbitrary: depth i)
  case 0
  then have eq: "depth = maxRecursionDepth"
    by simp
  show ?case
    by (rule exI [of _ "[i + 1]"]) (simp add: eq rqv_stop blossom_diag)
next
  case (Suc n)
  let ?fx = "blossom x0 x1 x2" and ?fy = "blossom y0 y1 y2"
  let ?pt = "\<lambda>k. (bezierCoord x0 x1 x2 (real k / 2 ^ maxRecursionDepth),
                    bezierCoord y0 y1 y2 (real k / 2 ^ maxRecursionDepth))"
  define a where "a = real i / 2 ^ depth"
  define b where "b = real (i + 1) / 2 ^ depth"
  define m where "m = (a + b) / 2"
  from Suc.hyps(2) have lt: "depth < maxRecursionDepth"
    and n: "n = maxRecursionDepth - (depth + 1)" and le: "depth + 1 \<le> maxRecursionDepth"
    and mx: "maxRecursionDepth = depth + Suc n" and diff: "maxRecursionDepth - depth = Suc n"
    by simp_all
  have goal: "\<exists>ks. recursiveQuadraticVertex (?fx a a) (?fy a a) (?fx a b) (?fy a b)
                     (?fx b b) (?fy b b) depth = map ?pt ks
                \<and> sorted_wrt (<) ks
                \<and> (\<forall>k \<in> set ks. i * 2 ^ Suc n < k \<and> k \<le> (i + 1) * 2 ^ Suc n)"
  proof (cases "getDistanceToLine (?fx a b) (?fy a b) (?fx a a) (?fy a a)
                  (?fx b b) (?fy b b) < flatnessTolerance")
    case True
    have "real ((i + 1) * 2 ^ Suc n) / 2 ^ maxRecursionDepth = b"
      by (simp add: b_def mx power_add field_simps)
    then have pt: "?pt ((i + 1) * 2 ^ Suc n) = (?fx b b, ?fy b b)"
      by (simp only: blossom_diag)
    have "recursiveQuadraticVertex (?fx a a) (?fy a a) (?fx a b) (?fy a b)
            (?fx b b) (?fy b b) depth = [(?fx b b, ?fy b b)]"
      using True by (simp add: rqv_stop)
    then have "recursiveQuadraticVertex (?fx a a) (?fy a a) (?fx a b) (?fy a b)
                 (?fx b b) (?fy b b) depth = map ?pt [(i + 1) * 2 ^ Suc n]"
      by (simp only: pt list.map)
    then show ?thesis
      by (intro exI [of _ "[(i + 1) * 2 ^ Suc n]"]) simp
  next
    case False
    have a': "real (2 * i) / 2 ^ (depth + 1) = a"
      by (simp add: a_def)
    have m': "real (2 * i + 1) / 2 ^ (depth + 1) = m"
      by (simp add: m_def a_def b_def field_simps)
    have b': "real (2 * i + 1 + 1) / 2 ^ (depth + 1) = b"
      by (simp add: b_def field_simps)
    obtain ks1 where
      r1: "recursiveQuadraticVertex (?fx a a) (?fy a a) (?fx a m) (?fy a m)
             (?fx m m) (?fy m m) (depth + 1) = map ?pt ks1"
      and s1: "sorted_wrt (<) ks1"
      and b1: "\<forall>k \<in> set ks1. (2 * i) * 2 ^ n < k \<and> k \<le> (2 * i + 1) * 2 ^ n"
      using Suc.hyps(1) [OF n le, of "2 * i"] unfolding a' m' n [symmetric] by blast
    obtain ks2 where
      r2: "recursiveQuadraticVertex (?fx m m) (?fy m m) (?fx m b) (?fy m b)
             (?fx b b) (?fy b b) (depth + 1) = map ?pt ks2"
      and s2: "sorted_wrt (<) ks2"
      and b2: "\<forall>k \<in> set ks2. (2 * i + 1) * 2 ^ n < k \<and> k \<le> (2 * i + 1 + 1) * 2 ^ n"
      using Suc.hyps(1) [OF n le, of "2 * i + 1"] unfolding m' b' n [symmetric] by blast
    have whole: "recursiveQuadraticVertex (?fx a a) (?fy a a) (?fx a b) (?fy a b)
                   (?fx b b) (?fy b b) depth = map ?pt (ks1 @ ks2)"
      unfolding rqv_split [OF lt False] blossom_mid_left blossom_mid_right
        m_def [symmetric] blossom_mid_mid [of _ _ _ a b, folded m_def] r1 r2
      by simp
    have cross: "\<forall>k \<in> set ks1. \<forall>l \<in> set ks2. k < l"
      using b1 b2 by fastforce
    have sorted: "sorted_wrt (<) (ks1 @ ks2)"
      using s1 s2 cross by (simp add: sorted_wrt_append)
    have bounds: "\<forall>k \<in> set (ks1 @ ks2). i * 2 ^ Suc n < k \<and> k \<le> (i + 1) * 2 ^ Suc n"
    proof
      fix k assume "k \<in> set (ks1 @ ks2)"
      then consider "k \<in> set ks1" | "k \<in> set ks2"
        by auto
      then show "i * 2 ^ Suc n < k \<and> k \<le> (i + 1) * 2 ^ Suc n"
      proof cases
        case 1
        with b1 have "(2 * i) * 2 ^ n < k" "k \<le> (2 * i + 1) * 2 ^ n"
          by blast+
        then show ?thesis by (simp add: algebra_simps)
      next
        case 2
        with b2 have "(2 * i + 1) * 2 ^ n < k" "k \<le> (2 * i + 1 + 1) * 2 ^ n"
          by blast+
        then show ?thesis by (simp add: algebra_simps)
      qed
    qed
    show ?thesis
      using whole sorted bounds by blast
  qed
  then show ?case
    unfolding a_def b_def diff .
qed

text \<open>
  Claim C9 (vertices on the curve). Under exact arithmetic, with the last point
  \<open>P0 = (x0, y0)\<close> set, the vertices appended by \<open>myQuadraticVertex(p, cx, cy, ex, ey)\<close>
  are the points \<open>B(t)\<close> of the quadratic Bezier curve of \<open>P0\<close>, \<open>(cx, cy)\<close>, \<open>(ex, ey)\<close>
  at a strictly increasing sequence of parameters \<open>t\<close>, each a dyadic number
  \<open>k / 2^maxRecursionDepth\<close> with \<open>0 < t \<le> 1\<close>.
\<close>

theorem curveTo_points_on_curve:
  assumes "lastX s = Some x0" and "lastY s = Some y0"
  shows "\<exists>s' ts. myQuadraticVertex s cx cy ex ey = Some s'
           \<and> vertices s' = vertices s @ map (quadraticBezier (x0, y0) (cx, cy) (ex, ey)) ts
           \<and> sorted_wrt (<) ts
           \<and> (\<forall>t \<in> set ts. 0 < t \<and> t \<le> 1
                  \<and> (\<exists>k::nat. t = real k / 2 ^ maxRecursionDepth))"
proof -
  let ?N = "(2::nat) ^ maxRecursionDepth"
  let ?par = "\<lambda>k::nat. real k / 2 ^ maxRecursionDepth"
  obtain ks where
    r: "recursiveQuadraticVertex x0 y0 cx cy ex ey 0
          = map (\<lambda>k. (bezierCoord x0 cx ex (?par k), bezierCoord y0 cy ey (?par k))) ks"
    and srt: "sorted_wrt (<) ks"
    and bnd: "\<forall>k \<in> set ks. 0 < k \<and> k \<le> ?N"
    using rqv_on_curve [of 0 x0 cx ex 0 y0 cy ey] by (auto simp: blossom_ends)
  have r': "recursiveQuadraticVertex x0 y0 cx cy ex ey 0
              = map (quadraticBezier (x0, y0) (cx, cy) (ex, ey)) (map ?par ks)"
    by (simp add: r quadraticBezier_def)
  have mono: "?par k < ?par l" if "k < l" for k l
    using that by (simp add: divide_strict_right_mono)
  have srt': "sorted_wrt (<) (map ?par ks)"
    unfolding sorted_wrt_map using srt mono by (rule sorted_wrt_mono_rel [rotated]) 
  have rng: "\<forall>t \<in> set (map ?par ks). 0 < t \<and> t \<le> 1
               \<and> (\<exists>k::nat. t = real k / 2 ^ maxRecursionDepth)"
  proof
    fix t assume "t \<in> set (map ?par ks)"
    then obtain k where k: "k \<in> set ks" and t: "t = ?par k"
      by auto
    from k bnd have "0 < k" and "k \<le> ?N"
      by blast+
    then have "0 < real k" and "real k \<le> real ?N"
      by (simp_all only: of_nat_0_less_iff of_nat_le_iff)
    then have "0 < ?par k" and "?par k \<le> 1"
      by (simp_all add: divide_le_eq_1)
    with t show "0 < t \<and> t \<le> 1 \<and> (\<exists>k::nat. t = real k / 2 ^ maxRecursionDepth)"
      by blast
  qed
  show ?thesis
    using assms r' srt' rng
    by (intro exI [of _ "s\<lparr>vertices := vertices s @ recursiveQuadraticVertex x0 y0 cx cy ex ey 0,
                           lastX := Some ex, lastY := Some ey\<rparr>"] exI [of _ "map ?par ks"])
       (simp add: myQuadraticVertex_def)
qed

theorem curveTo_points_on_curve_witness:
  "\<exists>s' ts. myQuadraticVertex \<lparr>lastX = Some 0, lastY = Some 0, vertices = [(0, 0)]\<rparr>
               0 10 10 10 = Some s'
     \<and> vertices s' = [(0, 0)] @ map (quadraticBezier (0, 0) (0, 10) (10, 10)) ts
     \<and> sorted_wrt (<) ts
     \<and> (\<forall>t \<in> set ts. 0 < t \<and> t \<le> 1 \<and> (\<exists>k::nat. t = real k / 2 ^ maxRecursionDepth))"
  using curveTo_points_on_curve
    [of "\<lparr>lastX = Some 0, lastY = Some 0, vertices = [(0, 0)]\<rparr>" 0 0 0 10 10 10]
  by simp


section \<open>Properties of the transformer model\<close>

lemma jsmul_NonFinite_right: "jsmul a NonFinite = NonFinite"
  by (cases a) simp_all

lemma jsdiv_zero: "jsdiv a 0 = NonFinite"
  by (cases a) simp_all

lemma rnd_small_numbers:
  "rnd 1 = Finite 1" "rnd 2 = Finite 2" "rnd 8 = Finite 8" "rnd 12 = Finite 12"
  "rnd 16 = Finite 16" "rnd 80 = Finite 80" "rnd 640 = Finite 640"
  using isDouble_int [of 1] isDouble_int [of 2] isDouble_int [of 8] isDouble_int [of 12]
    isDouble_int [of 16] isDouble_int [of 80] isDouble_int [of 640]
  by (simp_all add: isDouble_def)

text \<open>
  Claim C7 (the transformer formulas), as the code has it. For all inputs the result
  holds \<open>Vs = Vp * (Ns / Np)\<close>, \<open>Is = Vs / R\<close>, \<open>Ps = Vs * Is\<close> and \<open>Pp = Ps\<close>, each
  operation being the one of JavaScript. The type is \<open>Step-Up\<close> for \<open>Ns > Np\<close>,
  \<open>Step-Down\<close> for \<open>Ns < Np\<close> and \<open>Isolation\<close> for \<open>Ns = Np\<close>. For \<open>Ns = Np\<close> with
  \<open>Np \<noteq> 0\<close> the secondary voltage is \<open>Vp\<close>, \<open>Vp\<close> being a binary64 number as every
  input of the code is. For \<open>Vp = 40\<close>, \<open>Np = 1\<close>, \<open>Ns = 2\<close>, \<open>R = 10\<close> the result is
  \<open>Vs = 80\<close>, \<open>Is = 8\<close>, \<open>Ps = 640\<close>, \<open>Pp = 640\<close>, \<open>Ip = 16\<close>, type \<open>Step-Up\<close>.
\<close>

theorem transformer_formulas:
  fixes Vp Np Ns R :: real
  shows
    "(let r = calculateTransformerResults Vp Np Ns R
      in secondaryVoltage r = jsmul (Finite Vp) (jsdiv (Finite Ns) Np)
         \<and> secondaryCurrent r = jsdiv (secondaryVoltage r) R
         \<and> secondaryPower r = jsmul (secondaryVoltage r) (secondaryCurrent r)
         \<and> primaryPower r = secondaryPower r
         \<and> (Ns > Np \<longrightarrow> transformerType r = ''Step-Up'')
         \<and> (Ns < Np \<longrightarrow> transformerType r = ''Step-Down'')
         \<and> (Ns = Np \<longrightarrow> transformerType r = ''Isolation'')
         \<and> (Ns = Np \<and> Np \<noteq> 0 \<and> isDouble Vp \<longrightarrow> secondaryVoltage r = Finite Vp))
     \<and> calculateTransformerResults 40 1 2 10 =
         \<lparr>transformerType = ''Step-Up'', primaryCurrent = Finite 16,
          primaryPower = Finite 640, secondaryVoltage = Finite 80,
          secondaryCurrent = Finite 8, secondaryPower = Finite 640\<rparr>"
  by (simp add: calculateTransformerResults_def Let_def rnd_small_numbers isDouble_def)

theorem transformer_formulas_witness:
  "secondaryVoltage (calculateTransformerResults 12 3 3 10) = Finite 12
   \<and> transformerType (calculateTransformerResults 12 3 3 10) = ''Isolation''
   \<and> transformerType (calculateTransformerResults 12 6 3 10) = ''Step-Down''
   \<and> transformerType (calculateTransformerResults 12 3 6 10) = ''Step-Up''"
  using transformer_formulas [of 12 3 3 10] transformer_formulas [of 12 3 6 10]
    transformer_formulas [of 12 6 3 10]
  by (simp add: Let_def isDouble_def rnd_small_numbers)

text \<open>
  The claim as the specification words it, \<open>Vs = Vp\<close> whenever \<open>Ns = Np\<close>, fails when
  both turn counts are zero: \<open>0 / 0\<close> is \<open>NaN\<close>, and so is \<open>40 * NaN\<close>.
\<close>

theorem transformer_isolation_counterexample:
  "transformerType (calculateTransformerResults 40 0 0 10) = ''Isolation''
   \<and> secondaryVoltage (calculateTransformerResults 40 0 0 10) = NonFinite
   \<and> secondaryVoltage (calculateTransformerResults 40 0 0 10) \<noteq> Finite 40"
  by (simp add: calculateTransformerResults_def Let_def)

text \<open>
  Claim C8 (the guarded division). The primary current is \<open>Pp / Vp\<close> for \<open>Vp > 0\<close>
  and \<open>0\<close> for \<open>Vp \<le> 0\<close>. The division by \<open>Vp\<close> is therefore never evaluated with the
  divisor zero: where it is evaluated and the primary power is a finite number \<open>p\<close>,
  the primary current is the quotient \<open>p / Vp\<close> as binary64 rounds it.
\<close>

theorem primaryCurrent_guarded:
  fixes Vp Np Ns R :: real
  shows
    "(let r = calculateTransformerResults Vp Np Ns R
      in (Vp > 0 \<longrightarrow> Vp \<noteq> 0 \<and> primaryCurrent r = jsdiv (primaryPower r) Vp
                     \<and> (\<forall>p. primaryPower r = Finite p \<longrightarrow> primaryCurrent r = rnd (p / Vp)))
         \<and> (Vp \<le> 0 \<longrightarrow> primaryCurrent r = Finite 0))"
proof -
  define Pp where "Pp = primaryPower (calculateTransformerResults Vp Np Ns R)"
  have Ip: "primaryCurrent (calculateTransformerResults Vp Np Ns R)
              = (if Vp > 0 then jsdiv Pp Vp else Finite 0)"
    by (simp add: Pp_def calculateTransformerResults_def Let_def)
  show ?thesis
    unfolding Let_def Pp_def [symmetric] Ip
    by (cases Pp) simp_all
qed

theorem primaryCurrent_guarded_witness:
  "primaryCurrent (calculateTransformerResults 40 1 2 10) = Finite 16
   \<and> primaryCurrent (calculateTransformerResults 0 1 2 10) = Finite 0
   \<and> primaryCurrent (calculateTransformerResults (- 5) 1 2 10) = Finite 0"
proof -
  have p: "primaryPower (calculateTransformerResults 40 1 2 10) = Finite 640"
    by (simp add: calculateTransformerResults_def Let_def rnd_small_numbers)
  show ?thesis
    using primaryCurrent_guarded [of 40 1 2 10] primaryCurrent_guarded [of 0 1 2 10]
      primaryCurrent_guarded [of "- 5" 1 2 10] p
    by (simp add: Let_def rnd_small_numbers)
qed

text \<open>
  Claim C10 (the unguarded divisions). The divisions by \<open>primaryTurns\<close> and by
  \<open>loadResistance\<close> have no zero check: with \<open>Np = 0\<close> the secondary voltage is not a
  finite number, and with \<open>R = 0\<close> the secondary current is not. A result whose five
  numbers are all finite therefore requires \<open>Np \<noteq> 0\<close> and \<open>R \<noteq> 0\<close>.
\<close>

theorem transformer_unguarded_divisions:
  fixes Vp Np Ns R :: real
  shows
    "(let r = calculateTransformerResults Vp Np Ns R
      in (Np = 0 \<longrightarrow> secondaryVoltage r = NonFinite)
         \<and> (R = 0 \<longrightarrow> secondaryCurrent r = NonFinite)
         \<and> (isFinite (primaryCurrent r) \<and> isFinite (primaryPower r)
              \<and> isFinite (secondaryVoltage r) \<and> isFinite (secondaryCurrent r)
              \<and> isFinite (secondaryPower r)
             \<longrightarrow> Np \<noteq> 0 \<and> R \<noteq> 0))"
  by (auto simp add: calculateTransformerResults_def Let_def jsmul_NonFinite_right jsdiv_zero)

theorem transformer_unguarded_divisions_witness:
  "secondaryVoltage (calculateTransformerResults 40 0 2 10) = NonFinite
   \<and> secondaryCurrent (calculateTransformerResults 40 1 2 0) = NonFinite
   \<and> isFinite (primaryCurrent (calculateTransformerResults 40 1 2 10))
   \<and> isFinite (primaryPower (calculateTransformerResults 40 1 2 10))
   \<and> isFinite (secondaryVoltage (calculateTransformerResults 40 1 2 10))
   \<and> isFinite (secondaryCurrent (calculateTransformerResults 40 1 2 10))
   \<and> isFinite (secondaryPower (calculateTransformerResults 40 1 2 10))
   \<and> (1::real) \<noteq> 0 \<and> (10::real) \<noteq> 0"
proof -
  have "calculateTransformerResults 40 1 2 10 =
          \<lparr>transformerType = ''Step-Up'', primaryCurrent = Finite 16,
           primaryPower = Finite 640, secondaryVoltage = Finite 80,
           secondaryCurrent = Finite 8, secondaryPower = Finite 640\<rparr>"
    by (simp add: calculateTransformerResults_def Let_def rnd_small_numbers)
  then show ?thesis
    using transformer_unguarded_divisions [of 40 0 2 10]
      transformer_unguarded_divisions [of 40 1 2 0]
      transformer_unguarded_divisions [of 40 1 2 10]
    by (simp add: Let_def)
qed

end
